theory Spec2Isabelle
  imports Complex_Main
begin

section \<open>Values exchanged with the external libraries\<close>

text \<open>
  The notebooks call GDAL, numpy and matplotlib and shell out to command-line tools.
  A call into one of them either returns or raises; what it raises is described by a
  message of the library (\<open>string + 'a\<close>, \<open>Inl\<close> the message). A failure of GDAL is
  taken to raise, as it does once \<^verbatim>\<open>gdal.UseExceptions()\<close> has run; without it the call
  returns \<open>None\<close> and the exception comes with the first use of that result. The notebook
  code itself can fail in more ways: by its own \<^verbatim>\<open>raise Exception(...)\<close>, by indexing a
  Python list out of range, by reading a name that no cell has bound yet, and by asking
  \<open>None\<close> for an attribute.
\<close>

datatype exn =
    External string
  | Exception string
  | IndexError
  | NameError string
  | AttributeError string

definition ext :: "string + 'a \<Rightarrow> exn + 'a" where
  "ext r = (case r of Inl m \<Rightarrow> Inl (External m) | Inr v \<Rightarrow> Inr v)"

text \<open>Statements in sequence: the first exception ends the cell.\<close>

definition seq :: "exn + 'a \<Rightarrow> ('a \<Rightarrow> exn + 'b) \<Rightarrow> exn + 'b" where
  "seq r f = (case r of Inl e \<Rightarrow> Inl e | Inr x \<Rightarrow> f x)"

text \<open>
  A variable of the notebook session is unbound until a cell assigns it, and may hold
  \<open>None\<close>. Reading an unbound name raises \<open>NameError\<close>; asking \<open>None\<close> for a method or
  an attribute raises \<open>AttributeError\<close>.
\<close>

datatype 'a var = Unbound | PyNone | Obj 'a

definition lookup :: "string \<Rightarrow> 'a var \<Rightarrow> exn + 'a" where
  "lookup name v =
     (case v of Unbound \<Rightarrow> Inl (NameError name)
              | PyNone \<Rightarrow> Inl (AttributeError name)
              | Obj x \<Rightarrow> Inr x)"

text \<open>
  Pixel values are IEEE floating point numbers. Only their comparisons matter here:
  a NaN is neither greater than nor equal to anything, the infinities are ordered as usual.
\<close>

datatype float = Finite real | PosInf | NegInf | NaN

fun float_gt :: "float \<Rightarrow> float \<Rightarrow> bool" where
  "float_gt (Finite x) (Finite y) = (y < x)"
| "float_gt (Finite x) NegInf = True"
| "float_gt PosInf (Finite y) = True"
| "float_gt PosInf NegInf = True"
| "float_gt _ _ = False"

fun float_eq :: "float \<Rightarrow> float \<Rightarrow> bool" where
  "float_eq (Finite x) (Finite y) = (x = y)"
| "float_eq PosInf PosInf = True"
| "float_eq NegInf NegInf = True"
| "float_eq _ _ = False"

text \<open>
  A raster band and a dataset as GDAL hands them out. Arrays are kept flattened in row-major
  order. \<open>GetRasterBand(i)\<close> is \<open>bands ds ! (i - 1)\<close> and \<open>RasterCount\<close> is the number of bands.
  \<open>GetNoDataValue\<close> returns Python's \<open>None\<close> when the band has no no-data value.
\<close>

record band =
  ReadAsArray :: "string + float list"
  GetNoDataValue :: "string + float option"
  GetStatistics :: "string + real \<times> real \<times> real \<times> real"

record dataset =
  GetGeoTransform :: "real \<times> real \<times> real \<times> real \<times> real \<times> real"
  RasterXSize :: nat
  RasterYSize :: nat
  bands :: "band list"
  GetProjectionRef :: string

definition RasterCount :: "dataset \<Rightarrow> nat" where
  "RasterCount d = length (bands d)"

definition GetRasterBand :: "dataset \<Rightarrow> nat \<Rightarrow> exn + band" where
  "GetRasterBand d i =
     (if 1 \<le> i \<and> i \<le> RasterCount d then Inr (bands d ! (i - 1))
      else Inl (External ''Illegal band #''))"

subsection \<open>numpy\<close>

text \<open>
  A numpy masked array: the data, the mask (\<open>None\<close> is numpy's \<open>nomask\<close>) and the fill value
  (\<open>None\<close> when the default of the dtype applies). A plain array is a masked array with
  neither. \<open>getmaskarray\<close> is numpy's function of that name: the mask as an array of
  booleans, all false for \<open>nomask\<close>.
\<close>

record 'a masked_array =
  ma_data :: "'a list"
  ma_mask :: "bool list option"
  ma_fill_value :: "real option"

definition ndarray :: "'a list \<Rightarrow> 'a masked_array" where
  "ndarray xs = \<lparr>ma_data = xs, ma_mask = None, ma_fill_value = None\<rparr>"


text \<open>\<^verbatim>\<open>arr > c\<close>, \<^verbatim>\<open>arr == v\<close> (comparing with \<open>None\<close> is false everywhere) and \<^verbatim>\<open>a | b\<close>.\<close>

definition np_gt :: "float list \<Rightarrow> float \<Rightarrow> bool list" where
  "np_gt arr c = map (\<lambda>x. float_gt x c) arr"

definition np_eq :: "float list \<Rightarrow> float option \<Rightarrow> bool list" where
  "np_eq arr v = (case v of None \<Rightarrow> map (\<lambda>x. False) arr | Some c \<Rightarrow> map (\<lambda>x. float_eq x c) arr)"

definition np_or :: "bool list \<Rightarrow> bool list \<Rightarrow> bool list" where
  "np_or a b = map2 (\<or>) a b"

text \<open>
  \<^verbatim>\<open>np.ma.masked_where(condition, a)\<close> for a condition of the shape of \<open>a\<close>: the condition
  becomes the mask, shrunk to \<open>nomask\<close> when it is false everywhere.
\<close>

definition masked_where :: "bool list \<Rightarrow> 'a list \<Rightarrow> 'a masked_array" where
  "masked_where cond a =
     \<lparr>ma_data = a, ma_mask = (if True \<in> set cond then Some cond else None),
      ma_fill_value = None\<rparr>"

text \<open>
  \<^verbatim>\<open>np.ma.masked_array(data, mask=mask, fill_value=fill_value)\<close> with the defaults
  \<open>keep_mask=True\<close> and \<open>copy=False\<close>. A mask of one element is repeated over the data, a
  mask of any other size than the data is refused. The new mask is combined with the one
  the data already carries. The data itself is not touched.
\<close>

definition masked_array :: "'a masked_array \<Rightarrow> bool list \<Rightarrow> real \<Rightarrow> exn + 'a masked_array" where
  "masked_array data msk fill_value =
     (let nd = length (ma_data data); nm = length msk
      in if nm \<noteq> nd \<and> nm \<noteq> 1
         then Inl (External ''MaskError: Mask and data not compatible'')
         else
           (let mask' = (if nm = nd then msk else replicate nd (hd msk))
            in Inr \<lparr>ma_data = ma_data data,
                    ma_mask = (case ma_mask data of
                                 None \<Rightarrow> Some mask'
                               | Some old \<Rightarrow> Some (map2 (\<or>) mask' old)),
                    ma_fill_value = Some fill_value\<rparr>))"

subsection \<open>The session's view of the libraries\<close>

text \<open>
  What the libraries answer in a given session: the working directory, the files GDAL can
  open, what \<^verbatim>\<open>gdal.Info\<close>, \<^verbatim>\<open>gdal.Translate\<close> (destination, source, options) and
  \<^verbatim>\<open>ImportFromWkt\<close> return, and whether the map of section 3 can be drawn.
\<close>

record world =
  os_getcwd :: string
  gdal_Open :: "string \<Rightarrow> string + dataset"
  gdal_Info :: "dataset \<Rightarrow> string + string"
  gdal_Translate :: "string \<Rightarrow> dataset \<Rightarrow> string list \<Rightarrow> string + dataset"
  osr_ImportFromWkt :: "string \<Rightarrow> string + unit"
  plot_map :: "float masked_array \<Rightarrow> string + unit"

subsection \<open>Strings and os.path\<close>

definition startswith :: "string \<Rightarrow> string \<Rightarrow> bool" where
  "startswith s p = (take (length p) s = p)"

definition endswith :: "string \<Rightarrow> string \<Rightarrow> bool" where
  "endswith s p = (length p \<le> length s \<and> drop (length s - length p) s = p)"

text \<open>The POSIX versions of \<open>os.path.join\<close> (two arguments), \<open>normpath\<close>, \<open>abspath\<close>,
  \<open>basename\<close> and \<open>dirname\<close>.\<close>

definition os_path_join :: "string \<Rightarrow> string \<Rightarrow> string" where
  "os_path_join a b =
     (if startswith b ''/'' then b
      else if a = [] \<or> endswith a ''/'' then a @ b
      else a @ ''/'' @ b)"

fun split_slash :: "string \<Rightarrow> string list" where
  "split_slash [] = [[]]"
| "split_slash (c # cs) =
     (if c = CHR ''/'' then [] # split_slash cs
      else (case split_slash cs of [] \<Rightarrow> [[c]] | w # ws \<Rightarrow> (c # w) # ws))"

fun join_slash :: "string list \<Rightarrow> string" where
  "join_slash [] = []"
| "join_slash [w] = w"
| "join_slash (w # ws) = w @ ''/'' @ join_slash ws"

definition normpath :: "string \<Rightarrow> string" where
  "normpath path =
     (if path = [] then ''.''
      else
        (let initial_slashes =
               (if startswith path ''/''
                then (if startswith path ''//'' \<and> \<not> startswith path ''///'' then 2 else 1)
                else (0::nat));
             new_comps =
               foldl (\<lambda>new comp.
                        if comp = [] \<or> comp = ''.'' then new
                        else if comp \<noteq> ''..'' \<or> (initial_slashes = 0 \<and> new = [])
                                \<or> (new \<noteq> [] \<and> last new = ''..'')
                          then new @ [comp]
                        else if new \<noteq> [] then butlast new
                        else new)
                 [] (split_slash path);
             joined = replicate initial_slashes CHR ''/'' @ join_slash new_comps
         in if joined = [] then ''.'' else joined))"

definition os_path_abspath :: "string \<Rightarrow> string \<Rightarrow> string" where
  "os_path_abspath cwd path =
     normpath (if startswith path ''/'' then path else os_path_join cwd path)"

definition basename :: "string \<Rightarrow> string" where
  "basename p = rev (takeWhile (\<lambda>c. c \<noteq> CHR ''/'') (rev p))"

definition dirname :: "string \<Rightarrow> string" where
  "dirname p =
     (let head = rev (dropWhile (\<lambda>c. c \<noteq> CHR ''/'') (rev p))
      in if head \<noteq> [] \<and> head \<noteq> replicate (length head) CHR ''/''
         then rev (dropWhile (\<lambda>c. c = CHR ''/'') (rev head)) else head)"


section \<open>ariaPlot tutorial: \<open>plot_layer\<close>\<close>

text \<open>
  What \<open>plot_layer\<close> does to the outside world is the sequence of its prints and matplotlib
  calls. The axes of the figure are numbered from 0 in the order of \<open>axes.ravel()\<close>.
\<close>

datatype colormap = Greys_r | coolwarm | terrain

datatype event =
    Print string
  | Subplots nat nat
  | SetUnder colormap
  | SubplotsAdjust
  | Imshow nat "float masked_array" colormap "real option" "real option" "real list"
  | Colorbar nat bool
  | SetTitle nat string
  | Grid nat
  | SetYLabel nat
  | SetXLabel nat

text \<open>
  The loop over the bands. Reading a band is outside the \<^verbatim>\<open>try\<close>, so a failure there
  leaves the function; inside the \<^verbatim>\<open>try\<close> a failure of \<open>GetNoDataValue\<close> is caught by the
  bare \<^verbatim>\<open>except\<close>, which prints and masks on the threshold alone.
\<close>

definition mask_band :: "float list \<Rightarrow> string + float option \<Rightarrow> event list \<times> float masked_array" where
  "mask_band arr nodata =
     (case nodata of
        Inr NoData \<Rightarrow>
          ([], masked_where (np_or (np_gt arr (Finite (10 ^ 20))) (np_eq arr NoData)) arr)
      | Inl _ \<Rightarrow>
          ([Print ''Could not find a no-data value...''],
           masked_where (np_gt arr (Finite (10 ^ 20))) arr))"

fun load_bands :: "band list \<Rightarrow> event list \<times> (exn + float masked_array list)" where
  "load_bands [] = ([], Inr [])"
| "load_bands (raster # rest) =
     (case ext (ReadAsArray raster) of
        Inl e \<Rightarrow> ([], Inl e)
      | Inr arr \<Rightarrow>
          (case mask_band arr (GetNoDataValue raster) of
             (out, a) \<Rightarrow>
               (case load_bands rest of
                  (out', Inl e) \<Rightarrow> (out @ out', Inl e)
                | (out', Inr lst_arrs) \<Rightarrow> (out @ out', Inr (a # lst_arrs)))))"

text \<open>\<^verbatim>\<open>plt.subplots\<close> refuses a grid without rows or columns; otherwise it returns the axes.\<close>

definition plt_subplots :: "nat \<Rightarrow> nat \<Rightarrow> exn + nat list" where
  "plt_subplots nrows ncols =
     (if nrows = 0 \<or> ncols = 0
      then Inl (External ''ValueError: Number of rows and columns must be a positive integer'')
      else Inr [0..<nrows * ncols])"

text \<open>The \<^verbatim>\<open>if\<close>/\<^verbatim>\<open>elif\<close> chain on the layer type: vmin, vmax, colormap, titles, and whether
  the subplots are spread out.\<close>

definition layer_style ::
  "string \<Rightarrow> string list \<Rightarrow> real option \<times> real option \<times> colormap \<times> string list \<times> bool" where
  "layer_style lay_type title =
     (if endswith lay_type ''amplitude'' then (None, Some 2000, Greys_r, title, False)
      else if endswith lay_type ''coherence'' then (Some 0, Some 1, Greys_r, title, False)
      else if endswith lay_type ''incidenceAngle'' then (None, None, Greys_r, title, False)
      else if startswith lay_type ''water'' then (None, None, Greys_r, title, False)
      else if startswith lay_type ''defo'' then (None, None, coolwarm, title, False)
      else if startswith lay_type ''terr'' \<or> startswith lay_type ''topo''
        then (None, None, terrain, title, False)
      else if lay_type = ''ENU'' then (None, None, Greys_r, [''East'', ''North'', ''Up''], True)
      else (None, None, coolwarm, title, False))"

definition py_index :: "'a list \<Rightarrow> nat \<Rightarrow> exn + 'a" where
  "py_index xs i = (if i < length xs then Inr (xs ! i) else Inl IndexError)"

text \<open>The loop over \<^verbatim>\<open>enumerate(axe)\<close>.\<close>

fun draw_axes ::
  "string \<Rightarrow> string list \<Rightarrow> colormap \<Rightarrow> real option \<Rightarrow> real option \<Rightarrow> real list \<Rightarrow>
   float masked_array list \<Rightarrow> nat list \<Rightarrow> event list \<times> (exn + unit)" where
  "draw_axes lay_type title cmap vmin vmax extent lst_arrs [] = ([], Inr ())"
| "draw_axes lay_type title cmap vmin vmax extent lst_arrs (i # axe) =
     (case py_index lst_arrs i of
        Inl e \<Rightarrow> ([], Inl e)
      | Inr arr \<Rightarrow>
          (let evs = [Imshow i arr cmap vmin vmax extent, Colorbar i (lay_type = ''ENU'')]
           in case py_index title i of
                Inl e \<Rightarrow> (evs, Inl e)
              | Inr t \<Rightarrow>
                  (case draw_axes lay_type title cmap vmin vmax extent lst_arrs axe of
                     (evs', r) \<Rightarrow> (evs @ [SetTitle i t, Grid i] @ evs', r))))"

text \<open>
  \<open>plot_layer(path_layer, lay_type=None, cmap=None, **kwargs)\<close>. The \<open>cmap\<close> argument and
  the keyword arguments are never read (\<open>cmap\<close> is overwritten before its first use), so
  they are not parameters here. The function reads the session only through
  \<^verbatim>\<open>gdal.Open\<close>.
\<close>

definition plot_layer ::
  "world \<Rightarrow> string \<Rightarrow> string option \<Rightarrow> event list \<times> (exn + unit)" where
  "plot_layer w path_layer lay_type0 =
     (let lay_type = (case lay_type0 of
                        None \<Rightarrow> dirname path_layer
                      | Some l \<Rightarrow> if l = [] then dirname path_layer else l);
          title = [basename lay_type]
      in case ext (gdal_Open w path_layer) of
           Inl e \<Rightarrow> ([], Inl e)
         | Inr ds \<Rightarrow>
             (case GetGeoTransform ds of
                (t0, t1, t2, t3, t4, t5) \<Rightarrow>
                  (let extent = [t0, t0 + real (RasterXSize ds) * t1,
                                 t3 + real (RasterYSize ds) * t5, t3];
                       n_bands = RasterCount ds
                   in case load_bands (bands ds) of
                        (out, Inl e) \<Rightarrow> (out, Inl e)
                      | (out, Inr lst_arrs) \<Rightarrow>
                          if n_bands < 4 then
                            (case plt_subplots 1 n_bands of
                               Inl e \<Rightarrow> (out, Inl e)
                             | Inr axe \<Rightarrow>
                                 (case layer_style lay_type title of
                                    (vmin, vmax, cmap, title', adjust) \<Rightarrow>
                                      (let evs = out @ [Subplots 1 n_bands, SetUnder Greys_r]
                                                 @ (if adjust then [SubplotsAdjust] else [])
                                       in case draw_axes lay_type title' cmap vmin vmax extent
                                                 lst_arrs axe of
                                            (evs', Inl e) \<Rightarrow> (evs @ evs', Inl e)
                                          | (evs', Inr u) \<Rightarrow>
                                              (evs @ evs' @ [SetYLabel 0, SetXLabel (n_bands div 2)],
                                               Inr ()))))
                          else (out, Inl (Exception ''Number of bands currently unsupported'')))))"

section \<open>Command lines\<close>

text \<open>
  Splitting a command line into words: blanks separate words, single and double quotes group
  and are removed. The notebooks' command lines use nothing else of the shell's syntax.
  \<^verbatim>\<open>gdal.ParseCommandLine\<close> splits its argument in the same way.
\<close>

fun shell_split :: "string \<Rightarrow> string \<Rightarrow> bool \<Rightarrow> char option \<Rightarrow> string list" where
  "shell_split [] cur started q = (if started then [cur] else [])"
| "shell_split (c # cs) cur started (Some q) =
     (if c = q then shell_split cs cur True None
      else shell_split cs (cur @ [c]) True (Some q))"
| "shell_split (c # cs) cur started None =
     (if c = CHR '' '' then
        (if started then cur # shell_split cs [] False None
         else shell_split cs [] False None)
      else if c = CHR 0x22 \<or> c = CHR 0x27 then shell_split cs cur True (Some c)
      else shell_split cs (cur @ [c]) True None)"

definition shell_words :: "string \<Rightarrow> string list" where
  "shell_words l = shell_split l [] False None"

definition ParseCommandLine :: "string \<Rightarrow> string list" where
  "ParseCommandLine l = shell_words l"

section \<open>GDAL basics: the Python cells\<close>

text \<open>
  The session variables that hold paths, dataset handles and arrays, and the log of the GDAL
  calls that name a file. Variables that only hold printed text, statistics, corner
  coordinates or plot objects are not tracked; the cells are run top to bottom, so they are
  bound where they are read. A dataset is open as long as a variable refers to it. A cell
  that raises is the end of the run, as with \<open>Run All\<close>; what it had assigned before is not
  kept. Lines handed to the shell never raise and bind nothing; they are the subject of the
  next section.
\<close>

datatype call = Opened string | Translated string "string list"

record session =
  tutorial_home_dir :: "string var"
  data_dir :: "string var"
  fileName :: "string var"
  ds :: "dataset var"
  unwPhase :: "dataset var"
  unwData :: "float list var"
  NDV :: "float option var"
  connComp :: "dataset var"
  connCompData :: "float list var"
  unwDataMasked :: "float masked_array var"
  kmzFile :: "dataset var"
  kmzFileCrop :: "dataset var"
  calls :: "call list"

definition fresh :: session where
  "fresh = \<lparr>tutorial_home_dir = Unbound, data_dir = Unbound, fileName = Unbound,
            ds = Unbound, unwPhase = Unbound, unwData = Unbound, NDV = Unbound,
            connComp = Unbound, connCompData = Unbound, unwDataMasked = Unbound,
            kmzFile = Unbound, kmzFileCrop = Unbound, calls = []\<rparr>"

text \<open>A dataset variable passed as an argument: GDAL itself refuses \<open>None\<close>.\<close>

definition arg_dataset :: "string \<Rightarrow> dataset var \<Rightarrow> exn + dataset" where
  "arg_dataset name v =
     (case v of Unbound \<Rightarrow> Inl (NameError name)
              | PyNone \<Rightarrow> Inl (External ''ValueError: Received a NULL pointer.'')
              | Obj d \<Rightarrow> Inr d)"

definition product :: string where
  "product = ''S1-GUNW-A-R-077-tops-20190222_20190210-231605-42666N_40796N-PP-d75b-v2_0_1.nc''"

text \<open>Prep A: the directories and the path of the product. The cell also switches GDAL's
  exceptions on, creates the directories and changes into the home directory; none of this
  touches a tracked variable.\<close>

definition cell_setup :: "world \<Rightarrow> session \<Rightarrow> exn + session" where
  "cell_setup w s =
     (let home_dir = os_getcwd w;
          thd = os_path_abspath (os_getcwd w) (os_path_join home_dir []);
          dd = os_path_join thd ''products'';
          fn = os_path_join dd product
      in Inr (s\<lparr>tutorial_home_dir := Obj thd, data_dir := Obj dd, fileName := Obj fn\<rparr>))"

text \<open>1.1: \<^verbatim>\<open>ds = gdal.Open(fileName)\<close>, then \<^verbatim>\<open>gdal.Info(ds)\<close> and \<^verbatim>\<open>ds = None\<close>.\<close>

definition cell_open_product :: "world \<Rightarrow> session \<Rightarrow> exn + session" where
  "cell_open_product w s =
     seq (lookup ''fileName'' (fileName s)) (\<lambda>f.
     seq (ext (gdal_Open w f)) (\<lambda>d.
     Inr (s\<lparr>ds := Obj d, calls := calls s @ [Opened f]\<rparr>)))"

definition cell_info :: "world \<Rightarrow> session \<Rightarrow> exn + session" where
  "cell_info w s =
     seq (arg_dataset ''ds'' (ds s)) (\<lambda>d.
     seq (ext (gdal_Info w d)) (\<lambda>dataInfo.
     Inr (s\<lparr>ds := PyNone\<rparr>)))"

text \<open>2.1: the unwrapped phase is opened and described, then its statistics are computed
  and the handle is dropped.\<close>

definition cell_open_unwPhase :: "world \<Rightarrow> session \<Rightarrow> exn + session" where
  "cell_open_unwPhase w s =
     seq (lookup ''fileName'' (fileName s)) (\<lambda>f.
     (let p = ''NETCDF:'' @ f @ '':/science/grids/data/unwrappedPhase''
      in seq (ext (gdal_Open w p)) (\<lambda>d.
         seq (ext (gdal_Info w d)) (\<lambda>unwPhaseInfo.
         Inr (s\<lparr>unwPhase := Obj d, calls := calls s @ [Opened p]\<rparr>)))))"

definition cell_stats :: "world \<Rightarrow> session \<Rightarrow> exn + session" where
  "cell_stats w s =
     seq (lookup ''unwPhase'' (unwPhase s)) (\<lambda>d.
     seq (GetRasterBand d 1) (\<lambda>b.
     seq (ext (GetStatistics b)) (\<lambda>stats.
     Inr (s\<lparr>unwPhase := PyNone\<rparr>))))"

text \<open>3.1: the band is read into \<open>unwData\<close>; the handle stays open for the next two cells.\<close>

definition cell_read :: "world \<Rightarrow> session \<Rightarrow> exn + session" where
  "cell_read w s =
     seq (lookup ''fileName'' (fileName s)) (\<lambda>f.
     (let p = ''NETCDF:'' @ f @ '':/science/grids/data/unwrappedPhase''
      in seq (ext (gdal_Open w p)) (\<lambda>d.
         seq (GetRasterBand d 1) (\<lambda>b.
         seq (ext (ReadAsArray b)) (\<lambda>arr.
         Inr (s\<lparr>unwPhase := Obj d, unwData := Obj arr,
                calls := calls s @ [Opened p]\<rparr>))))))"

text \<open>The corner coordinates: the projection is imported and the geotransform read. The
  coordinates themselves are rounded floats that are printed and later give the extent of
  the map.\<close>

definition cell_corners :: "world \<Rightarrow> session \<Rightarrow> exn + session" where
  "cell_corners w s =
     seq (lookup ''unwPhase'' (unwPhase s)) (\<lambda>d.
     seq (ext (osr_ImportFromWkt w (GetProjectionRef d))) (\<lambda>u.
     Inr s))"

text \<open>
  Masking: the no-data value is read and the handle dropped, the connected components are
  read through a handle of their own, and \<open>unwData\<close> is masked twice, first where it equals
  the no-data value, then where the connected component is 0.
\<close>

definition cell_mask :: "world \<Rightarrow> session \<Rightarrow> exn + session" where
  "cell_mask w s =
     seq (lookup ''unwPhase'' (unwPhase s)) (\<lambda>d.
     seq (GetRasterBand d 1) (\<lambda>b.
     seq (ext (GetNoDataValue b)) (\<lambda>ndv.
     seq (lookup ''fileName'' (fileName s)) (\<lambda>f.
     (let p = ''NETCDF:'' @ f @ '':/science/grids/data/connectedComponents''
      in seq (ext (gdal_Open w p)) (\<lambda>c.
         seq (GetRasterBand c 1) (\<lambda>cb.
         seq (ext (ReadAsArray cb)) (\<lambda>ccd.
         seq (lookup ''unwData'' (unwData s)) (\<lambda>arr.
         seq (masked_array (ndarray arr) (np_eq arr ndv) 999999) (\<lambda>m1.
         seq (masked_array m1 (np_eq ccd (Some (Finite 0))) 999999) (\<lambda>m2.
         Inr (s\<lparr>NDV := Obj ndv, unwPhase := PyNone, connComp := PyNone,
                connCompData := Obj ccd, unwDataMasked := Obj m2,
                calls := calls s @ [Opened p]\<rparr>))))))))))))"

text \<open>3.1, last cell: the masked array is drawn on a map.\<close>

definition cell_map :: "world \<Rightarrow> session \<Rightarrow> exn + session" where
  "cell_map w s =
     seq (lookup ''unwDataMasked'' (unwDataMasked s)) (\<lambda>m.
     seq (ext (plot_map w m)) (\<lambda>u.
     Inr s))"

text \<open>4.1: export to KMZ, whole and cropped. Only the source handle is dropped.\<close>

definition cell_kmz :: "world \<Rightarrow> session \<Rightarrow> exn + session" where
  "cell_kmz w s =
     seq (lookup ''fileName'' (fileName s)) (\<lambda>f.
     (let p = ''NETCDF:'' @ f @ '':/science/grids/data/unwrappedPhase''
      in seq (ext (gdal_Open w p)) (\<lambda>d.
         (let translateOptions = ParseCommandLine ''-of KMLSUPEROVERLAY -scale -co format=png''
          in seq (ext (gdal_Translate w ''unwrappedPhase.kmz'' d translateOptions)) (\<lambda>k.
             Inr (s\<lparr>unwPhase := PyNone, kmzFile := Obj k,
                    calls := calls s @ [Opened p,
                      Translated ''unwrappedPhase.kmz'' translateOptions]\<rparr>))))))"

definition cell_kmz_crop :: "world \<Rightarrow> session \<Rightarrow> exn + session" where
  "cell_kmz_crop w s =
     seq (lookup ''fileName'' (fileName s)) (\<lambda>f.
     (let p = ''NETCDF:'' @ f @ '':/science/grids/data/unwrappedPhase''
      in seq (ext (gdal_Open w p)) (\<lambda>d.
         (let translateOptions = ParseCommandLine
                ''-of KMLSUPEROVERLAY -scale -co format=png -projwin -81.00 42.30 -80.00 41.50''
          in seq (ext (gdal_Translate w ''unwrappedPhaseCrop.kmz'' d translateOptions)) (\<lambda>k.
             Inr (s\<lparr>unwPhase := PyNone, kmzFileCrop := Obj k,
                    calls := calls s @ [Opened p,
                      Translated ''unwrappedPhaseCrop.kmz'' translateOptions]\<rparr>))))))"

text \<open>The notebook from top to bottom, in a fresh session.\<close>

fun run_cells :: "world \<Rightarrow> (world \<Rightarrow> session \<Rightarrow> exn + session) list \<Rightarrow> session \<Rightarrow> exn + session" where
  "run_cells w [] s = Inr s"
| "run_cells w (cell # cells) s = seq (cell w s) (run_cells w cells)"

definition GDAL_basics_python :: "(world \<Rightarrow> session \<Rightarrow> exn + session) list" where
  "GDAL_basics_python =
     [cell_setup, cell_open_product, cell_info, cell_open_unwPhase, cell_stats, cell_read,
      cell_corners, cell_mask, cell_map, cell_kmz, cell_kmz_crop]"

definition run_GDAL_basics :: "world \<Rightarrow> exn + session" where
  "run_GDAL_basics w = run_cells w GDAL_basics_python fresh"

text \<open>The dataset variables that still refer to a dataset.\<close>

definition is_Obj :: "'a var \<Rightarrow> bool" where
  "is_Obj v = (case v of Obj x \<Rightarrow> True | _ \<Rightarrow> False)"

definition open_handles :: "session \<Rightarrow> string list" where
  "open_handles s =
     map fst (filter (\<lambda>(name, v). is_Obj v)
       [(''ds'', ds s), (''unwPhase'', unwPhase s), (''connComp'', connComp s),
        (''kmzFile'', kmzFile s), (''kmzFileCrop'', kmzFileCrop s)])"

section \<open>The code cells as written\<close>

text \<open>
  The code cells of the three notebooks, line by line: the ariaPlot tutorial, the GDAL
  basics notebook, and the ariaDownload tutorial. A line that starts with \<open>!\<close> is handed to
  the shell by IPython.
\<close>

definition ariaPlot_cell1 :: "string list" where
  \<open>ariaPlot_cell1 =
     [''import os'',
      ''from osgeo import gdal, ogr'',
      ''import numpy as np'',
      ''import matplotlib.pyplot as plt'',
      ''from matplotlib.ticker import FuncFormatter, FormatStrFormatter, StrMethodFormatter'',
      ''from mpl_toolkits.axes_grid1 import make_axes_locatable'',
      '''',
      '''',
      '''',
      ''def plot_layer(path_layer, lay_type=None, cmap=None, **kwargs):'',
      ''    """ '',
      ''        path_layers is a string to the GDAL compatible dataset to be plotted'',
      ''    """'',
      ''    '',
      ''    if not lay_type: '',
      ''        lay_type = os.path.dirname(path_layer)'',
      ''    title = [os.path.basename(lay_type)]'',
      ''    '',
      ''    ## get the lon lat bounds'',
      ''    ds       = gdal.Open(path_layer, gdal.GA_ReadOnly)'',
      ''    trans    = ds.GetGeoTransform()'',
      ''    extent   = [trans[0], trans[0] + ds.RasterXSize * trans[1], trans[3] + ds.RasterYSize*trans[5], trans[3]]'',
      ''    '',
      ''    ## loading the data'',
      ''    n_bands  = ds.RasterCount'',
      ''    lst_arrs = []'',
      ''    '',
      ''    for band in range(n_bands):'',
      ''        raster = ds.GetRasterBand(band+1)'',
      ''        arr    = raster.ReadAsArray()'',
      ''        try:'',
      ''            NoData = raster.GetNoDataValue()'',
      ''            arr = np.ma.masked_where((arr>1e20) |(arr==NoData),arr )'',
      ''        except:'',
      ''            print('Could not find a no-data value...')'',
      ''            arr = np.ma.masked_where(arr>1e20,arr)'',
      ''        '',
      ''        lst_arrs.append(arr)'',
      '''',
      ''    ds = None'',
      ''    if n_bands < 4:'',
      ''        nrows = 1; ncols = n_bands'',
      ''    else:'',
      ''        raise Exception('Number of bands currently unsupported')'',
      ''        '',
      ''    '',
      ''    ## initializing a figure'',
      ''    fig, axes = plt.subplots(figsize=(12,9), ncols=ncols, nrows=nrows, sharex='col', sharey='row')'',
      ''    axes = axes if isinstance(axes, np.ndarray) else np.array(axes)'',
      ''    axe  = axes.ravel() '',
      ''    cmap = plt.cm.Greys_r'',
      ''    cmap.set_under('black')'',
      ''    '',
      ''    ## definging the plotting options for differnt layer types'',
      ''    # Amplitude:'',
      ''    if lay_type.endswith('amplitude'): '',
      ''        # will fix the maximum amplitude bound'',
      ''        vmin=None'',
      ''        vmax = 2000 '',
      ''    # Coherence:'',
      ''    elif lay_type.endswith('coherence'): '',
      ''        # has fixed range between 0-1'',
      ''        vmin=0'',
      ''        vmax = 1'',
      ''    # Incidence angle:'',
      ''    elif lay_type.endswith('incidenceAngle'): '',
      ''        vmin=None'',
      ''        vmax=None'',
      ''    # water'',
      ''    elif lay_type.startswith('water'):'',
      ''        # no bounds needed will be a 0/1 mask'',
      ''        vmin=None'',
      ''        vmax=None'',
      ''    # deformation or unwrapped phase'',
      ''    elif lay_type.startswith('defo'): '',
      ''        # let the data drive the bounds'',
      ''        vmin=None'',
      ''        vmax=None'',
      ''        # change colormap to a warm type'',
      ''        cmap=plt.cm.coolwarm'',
      ''    elif lay_type.startswith('terr') or lay_type.startswith('topo'): '',
      ''        # let the data drive the bounds'',
      ''        vmin=None'',
      ''        vmax=None'',
      ''        # change colormap to a warm type'',
      ''        cmap=plt.cm.terrain'',
      ''    elif lay_type == 'ENU':'',
      ''        vmin=None'',
      ''        vmax=None'',
      ''        title = ['East', 'North', 'Up']'',
      ''        fig.subplots_adjust(wspace=0.5)'',
      '''',
      ''    else:'',
      ''        # let the data drive the bounds'',
      ''        vmin=None'',
      ''        vmax=None'',
      ''        # change colormap to a warm type'',
      ''        cmap=plt.cm.coolwarm'',
      ''        '',
      ''    # plotting the data    '',
      ''    for i, ax in enumerate(axe):'',
      ''        im   = ax.imshow(lst_arrs[i], cmap=cmap, vmin=vmin, vmax=vmax, extent=extent)'',
      ''        divider = make_axes_locatable(ax)'',
      ''        cax     = divider.append_axes('right', size='5%', pad=0.25)'',
      ''        if lay_type == 'ENU':'',
      ''            fig.colorbar(im, cax=cax, format=FuncFormatter(lambda x, y: '{:.3f}'.format(x)))'',
      ''        else:'',
      ''            fig.colorbar(im, cax=cax)'',
      '''',
      ''        ax.set_title(title[i], fontsize=15)'',
      ''        ax.grid(False)'',
      '''',
      ''    axe[0].set_ylabel('latitude', labelpad=15, fontsize=15)'',
      ''    axe[int(np.floor(n_bands/2))].set_xlabel('longitude', labelpad=15, fontsize=15)'']\<close>

definition ariaPlot_cell2 :: "string list" where
  \<open>ariaPlot_cell2 =
     [''!ariaDownload.py -t 42 -e 20160101  --bbox "37.25 38.1 -122.6 -121.75"'']\<close>

definition ariaPlot_cell3 :: "string list" where
  \<open>ariaPlot_cell3 =
     [''!ls products'']\<close>

definition ariaPlot_cell4 :: "string list" where
  \<open>ariaPlot_cell4 =
     [''!ariaPlot.py -h'']\<close>

definition ariaPlot_cell5 :: "string list" where
  \<open>ariaPlot_cell5 =
     [''!ariaPlot.py -f "products/*.nc"   --plotcoh --plotbperpcoh --makeavgoh'']\<close>

definition ariaPlot_cell6 :: "string list" where
  \<open>ariaPlot_cell6 =
     [''!ls figures'']\<close>

definition ariaPlot_cell7 :: "string list" where
  \<open>ariaPlot_cell7 =
     [''plot_layer('figures/avgcoherence.vrt','coherence')'']\<close>

definition ariaPlot_cell8 :: "string list" where
  \<open>ariaPlot_cell8 =
     [''!ariaPlot.py -f 'products/*.nc' -plottracks'']\<close>

definition ariaPlot_tutorial :: "string list list" where
  "ariaPlot_tutorial =
     [ariaPlot_cell1, ariaPlot_cell2, ariaPlot_cell3, ariaPlot_cell4,
      ariaPlot_cell5, ariaPlot_cell6, ariaPlot_cell7, ariaPlot_cell8]"

definition GDAL_cell1 :: "string list" where
  \<open>GDAL_cell1 =
     [''import os,sys'',
      ''from osgeo import gdal,osr'',
      ''import numpy as np'',
      ''import matplotlib.pyplot as plt'',
      '''',
      ''## Defining the home and data directories at the processing location'',
      ''home_dir = os.getcwd()'',
      ''tutorial_home_dir = os.path.abspath(os.path.join(home_dir, ""))'',
      ''data_dir = os.path.join(tutorial_home_dir,'products')'',
      ''print("home directory: ", tutorial_home_dir)'',
      ''print("")'',
      '''',
      ''# Enable GDAL/OGR exceptions'',
      ''gdal.UseExceptions()'',
      '''',
      ''# data file'',
      ''fileName = os.path.join(data_dir,'S1-GUNW-A-R-077-tops-20190222_20190210-231605-42666N_40796N-PP-d75b-v2_0_1.nc')'',
      '''',
      ''# generate all the folders in case they do not exist yet'',
      ''if not os.path.exists(tutorial_home_dir):'',
      ''    os.makedirs(tutorial_home_dir)'',
      ''if not os.path.exists(data_dir):'',
      ''    os.makedirs(data_dir)'',
      ''os.chdir(tutorial_home_dir)'',
      '''']\<close>

definition GDAL_cell2 :: "string list" where
  \<open>GDAL_cell2 =
     [''os.chdir(tutorial_home_dir) '',
      ''!ariaDownload.py --bbox "41.5 42 -82 -78" --ifg 20190222_20190210 -v -w {data_dir}'']\<close>

definition GDAL_cell3 :: "string list" where
  \<open>GDAL_cell3 =
     [''##Open netCDF file using GDAL##'',
      ''ds = gdal.Open(fileName)'']\<close>

definition GDAL_cell4 :: "string list" where
  \<open>GDAL_cell4 =
     [''##Retrieve an overview of the file content##'',
      ''dataInfo = gdal.Info(ds)'',
      ''# printing the information to the screen'',
      ''print(dataInfo)'',
      ''# closing the product'',
      ''ds = None'']\<close>

definition GDAL_cell5 :: "string list" where
  \<open>GDAL_cell5 =
     [''!gdalinfo ./products/S1-GUNW-A-R-077-tops-20190222_20190210-231605-42666N_40796N-PP-d75b-v2_0_1.nc'']\<close>

definition GDAL_cell6 :: "string list" where
  \<open>GDAL_cell6 =
     [''##Open and retrieve information of the unwrapped phase##'',
      ''unwPhase = gdal.Open("NETCDF:"+fileName+":/science/grids/data/unwrappedPhase")'',
      ''# retrieve the information for the variable'',
      ''unwPhaseInfo = gdal.Info(unwPhase)'',
      ''# print the information to the screen'',
      ''print(unwPhaseInfo)'']\<close>

definition GDAL_cell7 :: "string list" where
  \<open>GDAL_cell7 =
     [''stats = unwPhase.GetRasterBand(1).GetStatistics(0,1)'',
      ''# print to the screen'',
      ''print('Min: ', stats[0])'',
      ''print('Max: ', stats[1])'',
      ''print('Mean: ', stats[2])'',
      ''print('Standard Dev.: ', stats[3])'',
      ''# close the file'',
      ''unwPhase = None'']\<close>

definition GDAL_cell8 :: "string list" where
  \<open>GDAL_cell8 =
     [''!gdalinfo NETCDF:"./products/S1-GUNW-A-R-077-tops-20190222_20190210-231605-42666N_40796N-PP-d75b-v2_0_1.nc":/science/grids/data/unwrappedPhase'']\<close>

definition GDAL_cell9 :: "string list" where
  \<open>GDAL_cell9 =
     [''!gdalinfo NETCDF:"./products/S1-GUNW-A-R-077-tops-20190222_20190210-231605-42666N_40796N-PP-d75b-v2_0_1.nc":/science/grids/data/unwrappedPhase -stats'']\<close>

definition GDAL_cell10 :: "string list" where
  \<open>GDAL_cell10 =
     [''!gdalsrsinfo "EPSG:4326"'']\<close>

definition GDAL_cell11 :: "string list" where
  \<open>GDAL_cell11 =
     [''##Open and retrieve information of the unwrapped phase##'',
      ''unwPhase = gdal.Open("NETCDF:"+fileName+":/science/grids/data/unwrappedPhase")'',
      '''',
      ''# loading the unwrapped phase into a numpy array'',
      ''unwData = unwPhase.GetRasterBand(1).ReadAsArray()'',
      '''',
      ''# show the size of the array'',
      ''print("Succesfully loaded the 'unwrappedPhase' sub-dataset into a Numpy array with size:")'',
      ''print(unwData.shape)'']\<close>

definition GDAL_cell12 :: "string list" where
  \<open>GDAL_cell12 =
     [''##Get Projection##'',
      ''projection = osr.SpatialReference()'',
      ''projection.ImportFromWkt(unwPhase.GetProjectionRef())'',
      '''',
      ''##Get corner coordinates##'',
      ''ulLon, Lonres, Lonskew, ulLat, Latskew, Latres  = unwPhase.GetGeoTransform()'',
      ''lrLon = ulLon + (unwPhase.RasterXSize * Lonres)'',
      ''lrLat = ulLat + (unwPhase.RasterYSize * Latres)'',
      '''',
      ''###Let's round corner coordinates to the same number of digits as given in previous cell###'',
      ''ulLon = np.round(ulLon,7)'',
      ''ulLat = np.round(ulLat,7)'',
      ''lrLon = np.round(lrLon,7)'',
      ''lrLat = np.round(lrLat,7)'',
      '''',
      ''###Corner coordinates calculated in this cell###'',
      ''print('' @ [CHR 0x27, CHR 0x27, CHR 0x27],
      ''Corner Coordinates calculated in this cell: '' @ [CHR 0x27, CHR 0x27, CHR 0x27] @ '','',
      [CHR 0x27, CHR 0x27, CHR 0x27] @ ''Upper Left: '' @ [CHR 0x27, CHR 0x27, CHR 0x27] @ '', (ulLon,  ulLat),'',
      [CHR 0x27, CHR 0x27, CHR 0x27] @ ''Lower Left: '' @ [CHR 0x27, CHR 0x27, CHR 0x27] @ '', (ulLon,  lrLat),'',
      [CHR 0x27, CHR 0x27, CHR 0x27] @ ''Upper Right: '' @ [CHR 0x27, CHR 0x27, CHR 0x27] @ '', (lrLon,  ulLat),'',
      [CHR 0x27, CHR 0x27, CHR 0x27] @ ''Lower Right: '' @ [CHR 0x27, CHR 0x27, CHR 0x27] @ '', (lrLon,  lrLat), sep='' @ [CHR 0x27, CHR 0x5C] @ ''n'' @ [CHR 0x27] @ '')'']\<close>

definition GDAL_cell13 :: "string list" where
  \<open>GDAL_cell13 =
     [''##Get No Data Value##'',
      ''NDV = unwPhase.GetRasterBand(1).GetNoDataValue()'',
      ''# closing the file '',
      ''unwPhase = None'',
      '''',
      ''## Loading the connected component.'',
      ''connComp = gdal.Open("NETCDF:"+fileName+":/science/grids/data/connectedComponents")'',
      ''connCompData = connComp.GetRasterBand(1).ReadAsArray()'',
      ''connComp = None'',
      '''',
      '''',
      ''##Masking out the no-data'',
      ''unwDataMasked = np.ma.masked_array(unwData, mask=unwData==NDV, fill_value=999999)'',
      ''##Masking out connected component 0, which typically correspond to decorrelated area's such as water'',
      ''unwDataMasked = np.ma.masked_array(unwDataMasked, mask=connCompData==0, fill_value=999999)'']\<close>

definition GDAL_cell14 :: "string list" where
  \<open>GDAL_cell14 =
     [''import cartopy.io.img_tiles as cimgt'',
      ''import cartopy.feature as cfeature'',
      ''import cartopy.crs as ccrs'',
      ''from cartopy.mpl.ticker import LongitudeFormatter, LatitudeFormatter'',
      '''',
      ''basemap   = cimgt.Stamen('terrain-background')'',
      ''#######The plot extend is image corners###########'',
      ''WESN      = [ulLon, lrLon, lrLat, ulLat]'',
      ''fig, axes = plt.subplots(figsize=(20,8), subplot_kw={'projection':basemap.crs})'',
      ''axes.set_extent(WESN, ccrs.Geodetic())'',
      ''axes.add_image(basemap, 10)'',
      ''axes.coastlines()'',
      ''im = axes.imshow(unwDataMasked, cmap='viridis', vmin=-12, vmax=0, zorder=1, extent=WESN, origin = 'upper', transform=ccrs.PlateCarree())'',
      ''cbar_ax   = fig.add_axes([0.730, 0.125, 0.025, 0.755])'',
      ''fig.colorbar(im, cbar_ax, label='Radians', spacing='proportional')'',
      ''axes.set_xticks(np.arange(WESN[0], WESN[1], 1), crs=ccrs.PlateCarree())'',
      ''axes.set_yticks(np.arange(WESN[2], WESN[3], 1), crs=ccrs.PlateCarree())'',
      ''axes.grid(linewidth=1.5, color='black', alpha=0.35, linestyle='--', zorder=2)'',
      ''lon_formatter = LongitudeFormatter(number_format='' @ [CHR 0x27] @ ''.2f'' @ [CHR 0x27] @ '', degree_symbol='' @ [CHR 0x27, CHR 0x27] @ '')'',
      ''lat_formatter = LatitudeFormatter(number_format='' @ [CHR 0x27] @ ''.2f'' @ [CHR 0x27] @ '', degree_symbol='' @ [CHR 0x27, CHR 0x27] @ '')'',
      ''axes.xaxis.set_major_formatter(lon_formatter)'',
      ''axes.yaxis.set_major_formatter(lat_formatter)'',
      ''plt.show()'']\<close>

definition GDAL_cell15 :: "string list" where
  \<open>GDAL_cell15 =
     [''##Open and retrieve information of the unwrapped phase##'',
      ''unwPhase = gdal.Open("NETCDF:"+fileName+":/science/grids/data/unwrappedPhase")'',
      '''',
      ''# translating the unwrapped phase to kmz'',
      ''translateOptions = gdal.TranslateOptions(gdal.ParseCommandLine('-of KMLSUPEROVERLAY -scale -co format=png'))'',
      ''kmzFile = gdal.Translate("unwrappedPhase.kmz", unwPhase, options=translateOptions)'',
      '''',
      ''# closing the original file'',
      ''unwPhase = None'',
      '''',
      ''# summary and check if the file was generated'',
      ''print("Done: ")'',
      ''!ls unwrappedPhase.kmz'']\<close>

definition GDAL_cell16 :: "string list" where
  \<open>GDAL_cell16 =
     [''##Open and retrieve information of the unwrapped phase##'',
      ''unwPhase = gdal.Open("NETCDF:"+fileName+":/science/grids/data/unwrappedPhase")'',
      '''',
      ''translateOptions = gdal.TranslateOptions(gdal.ParseCommandLine('-of KMLSUPEROVERLAY -scale -co format=png -projwin -81.00 42.30 -80.00 41.50'))'',
      ''kmzFileCrop = gdal.Translate("unwrappedPhaseCrop.kmz", unwPhase, options=translateOptions)'',
      '''',
      ''# closing the original file'',
      ''unwPhase = None'',
      '''',
      ''# summary and check if the file was generated'',
      ''print("Done: ")'',
      ''!ls unwrappedPhaseCrop.kmz'']\<close>

definition GDAL_cell17 :: "string list" where
  \<open>GDAL_cell17 =
     [''!gdal_translate  -of KMLSUPEROVERLAY -scale -co format=png "NETCDF:./products/S1-GUNW-A-R-077-tops-20190222_20190210-231605-42666N_40796N-PP-d75b-v2_0_1.nc:/science/grids/data/unwrappedPhase" unwrappedPhase.kmz'',
      ''!ls unwrappedPhase.kmz'']\<close>

definition GDAL_cell18 :: "string list" where
  \<open>GDAL_cell18 =
     [''!gdal_translate -of KMLSUPEROVERLAY -scale -co format=png -projwin -81.00 42.30 -80.00 41.50 "NETCDF:./products/S1-GUNW-A-R-077-tops-20190222_20190210-231605-42666N_40796N-PP-d75b-v2_0_1.nc:/science/grids/data/unwrappedPhase" unwrappedPhaseCrop.kmz'',
      ''!ls unwrappedPhaseCrop.kmz'']\<close>

definition GDAL_basics :: "string list list" where
  "GDAL_basics =
     [GDAL_cell1, GDAL_cell2, GDAL_cell3, GDAL_cell4, GDAL_cell5, GDAL_cell6,
      GDAL_cell7, GDAL_cell8, GDAL_cell9, GDAL_cell10, GDAL_cell11, GDAL_cell12,
      GDAL_cell13, GDAL_cell14, GDAL_cell15, GDAL_cell16, GDAL_cell17,
      GDAL_cell18]"

definition ariaDownload_cell1 :: "string list" where
  \<open>ariaDownload_cell1 =
     [''!ariaDownload.py'']\<close>

definition ariaDownload_cell2 :: "string list" where
  \<open>ariaDownload_cell2 =
     [''!ariaDownload.py --track 4 --output count'']\<close>

definition ariaDownload_cell3 :: "string list" where
  \<open>ariaDownload_cell3 =
     [''!ariaDownload.py --track 4 --output url'']\<close>

definition ariaDownload_cell4 :: "string list" where
  \<open>ariaDownload_cell4 =
     [''!head -n 10 products/download_products_4track_0.txt'']\<close>

definition ariaDownload_cell5 :: "string list" where
  \<open>ariaDownload_cell5 =
     [''!ariaDownload.py --track 4 --output kmz'']\<close>

definition ariaDownload_cell6 :: "string list" where
  \<open>ariaDownload_cell6 =
     [''!ariaDownload.py --track 4 --bbox "36.75 37.225 -76.655 -75.928" -o count'']\<close>

definition ariaDownload_cell7 :: "string list" where
  \<open>ariaDownload_cell7 =
     [''!ariaDownload.py --track 4 --bbox './support_docs/HR_North.shp' -o count'']\<close>

definition ariaDownload_cell8 :: "string list" where
  \<open>ariaDownload_cell8 =
     [''!ariaDownload.py --track 4 --bbox "36.75 37.225 -76.655 -75.928" -o count --start 20190101 '']\<close>

definition ariaDownload_cell9 :: "string list" where
  \<open>ariaDownload_cell9 =
     [''!ariaDownload.py --track 4 --bbox "36.75 37.225 -76.655 -75.928" -o count -s 20190101  --end 20190401 --verbose'']\<close>

definition ariaDownload_cell10 :: "string list" where
  \<open>ariaDownload_cell10 =
     [''!ariaDownload.py --track 4 --bbox "36.75 37.225 -76.655 -75.928" -o count --daysless 13 -v'']\<close>

definition ariaDownload_cell11 :: "string list" where
  \<open>ariaDownload_cell11 =
     [''!ariaDownload.py --track 4 --bbox "36.75 37.225 -76.655 -75.928" -o count --daysmore 364'']\<close>

definition ariaDownload_cell12 :: "string list" where
  \<open>ariaDownload_cell12 =
     [''!ariaDownload.py --track 4  --bbox "36.75 37.225 -76.655 -75.928"  -o count -m 59 -l 181 -v '']\<close>

definition ariaDownload_cell13 :: "string list" where
  \<open>ariaDownload_cell13 =
     [''!ariaDownload.py -b "36.75 37.225 -76.655 -75.928"  -o count --ifg "20161018_20160702" -v '']\<close>

definition ariaDownload_tutorial :: "string list list" where
  "ariaDownload_tutorial =
     [ariaDownload_cell1, ariaDownload_cell2, ariaDownload_cell3,
      ariaDownload_cell4, ariaDownload_cell5, ariaDownload_cell6,
      ariaDownload_cell7, ariaDownload_cell8, ariaDownload_cell9,
      ariaDownload_cell10, ariaDownload_cell11, ariaDownload_cell12,
      ariaDownload_cell13]"

definition code_cells :: "string list list" where
  "code_cells = ariaPlot_tutorial @ GDAL_basics @ ariaDownload_tutorial"

definition shell_escape :: "string \<Rightarrow> bool" where
  "shell_escape l = (case l of [] \<Rightarrow> False | c # cs \<Rightarrow> c = CHR ''!'')"

definition command :: "string \<Rightarrow> string list" where
  "command l = shell_words (tl l)"

definition cell_commands :: "string list \<Rightarrow> string list list" where
  "cell_commands cell = map command (filter shell_escape cell)"

definition shell_commands :: "string list list \<Rightarrow> string list list" where
  "shell_commands cells = concat (map cell_commands cells)"

definition runs :: "string \<Rightarrow> string list \<Rightarrow> bool" where
  "runs prog argv = (case argv of [] \<Rightarrow> False | p # args \<Rightarrow> p = prog)"

subsection \<open>What a cell does\<close>

fun prefix_of :: "string \<Rightarrow> string \<Rightarrow> bool" where
  "prefix_of [] s = True"
| "prefix_of (p # ps) [] = False"
| "prefix_of (p # ps) (c # cs) = (if p = c then prefix_of ps cs else False)"

fun contains :: "string \<Rightarrow> string \<Rightarrow> bool" where
  "contains [] p = (p = [])"
| "contains (c # cs) p = (if prefix_of p (c # cs) then True else contains cs p)"

fun mentions :: "string list \<Rightarrow> string \<Rightarrow> bool" where
  "mentions [] p = False"
| "mentions (l # ls) p = (if contains l p then True else mentions ls p)"

fun mentions_any :: "string list \<Rightarrow> string list \<Rightarrow> bool" where
  "mentions_any cell [] = False"
| "mentions_any cell (p # ps) = (if mentions cell p then True else mentions_any cell ps)"




definition plotting :: "string list \<Rightarrow> bool" where
  "plotting cell = mentions_any cell [''plt.'', ''plot_layer('']"






subsection \<open>ariaDownload.py\<close>

text \<open>
  The options of \<open>ariaDownload.py\<close> as the specification gives them, each with whether it
  takes a value (\<open>--output\<close> is the long form of \<open>-o\<close>), and the further spellings the
  notebooks use. The command lines are read as they are written: in \<open>-w {data_dir}\<close> IPython
  puts the value of the session variable in place of the braces, one word for a directory
  without blanks.
\<close>

definition documented_options :: "(string \<times> bool) list" where
  "documented_options =
     [(''--track'', True), (''--bbox'', True), (''--ifg'', True), (''--start'', True),
      (''--end'', True), (''--daysless'', True), (''--daysmore'', True), (''-o'', True),
      (''--output'', True), (''-w'', True), (''-v'', False)]"

definition short_options :: "(string \<times> bool) list" where
  "short_options =
     [(''-t'', True), (''-b'', True), (''-s'', True), (''-e'', True), (''-l'', True),
      (''-m'', True), (''--verbose'', False)]"

text \<open>Reading the arguments from left to right: an option that takes a value is followed
  by it; anything else that is not an option of the signature is refused.\<close>

fun parse_options :: "(string \<times> bool) list \<Rightarrow> string list \<Rightarrow> (string \<times> string option) list option" where
  "parse_options sig [] = Some []"
| "parse_options sig (a # args) =
     (case map_of sig a of
        None \<Rightarrow> None
      | Some False \<Rightarrow> map_option ((#) (a, None)) (parse_options sig args)
      | Some True \<Rightarrow>
          (case args of
             [] \<Rightarrow> None
           | v # rest \<Rightarrow> map_option ((#) (a, Some v)) (parse_options sig rest)))"

definition output_kinds :: "string list" where
  "output_kinds = [''download'', ''count'', ''kmz'', ''url'']"

fun outputs_ok :: "(string \<times> string option) list \<Rightarrow> bool" where
  "outputs_ok [] = True"
| "outputs_ok ((name, v) # opts) =
     (if name = ''-o'' \<or> name = ''--output''
      then (case v of None \<Rightarrow> False | Some k \<Rightarrow> k \<in> set output_kinds \<and> outputs_ok opts)
      else outputs_ok opts)"

definition invocation_ok :: "(string \<times> bool) list \<Rightarrow> string list \<Rightarrow> bool" where
  "invocation_ok sig argv =
     (case parse_options sig (tl argv) of None \<Rightarrow> False | Some opts \<Rightarrow> outputs_ok opts)"

definition ariaDownload_invocations :: "string list list" where
  "ariaDownload_invocations = filter (runs ''ariaDownload.py'') (shell_commands code_cells)"

subsection \<open>KMZ exports\<close>

definition kmz_options :: "string list" where
  "kmz_options = [''-of'', ''KMLSUPEROVERLAY'', ''-scale'', ''-co'', ''format=png'']"

definition is_number :: "string \<Rightarrow> bool" where
  "is_number s = (s \<noteq> [] \<and> list_all (\<lambda>c. c \<in> set ''0123456789.-'') s)"

definition kmz_options_ok :: "string list \<Rightarrow> bool" where
  "kmz_options_ok opts =
     (opts = kmz_options \<or>
      (take 5 opts = kmz_options \<and> length opts = 10 \<and> opts ! 5 = ''-projwin'' \<and>
       list_all is_number (drop 6 opts)))"

definition kmz_export_ok :: "string list \<Rightarrow> string \<Rightarrow> bool" where
  "kmz_export_ok opts dst = (kmz_options_ok opts \<and> endswith dst ''.kmz'')"

text \<open>\<^verbatim>\<open>gdal_translate [options] <in> <out>\<close>: the last two words are the source and the
  destination.\<close>

definition gdal_translate_ok :: "string list \<Rightarrow> bool" where
  "gdal_translate_ok argv =
     (3 \<le> length argv \<and> kmz_export_ok (butlast (butlast (tl argv))) (last argv))"

definition gdal_translate_commands :: "string list list" where
  "gdal_translate_commands = filter (runs ''gdal_translate'') (shell_commands code_cells)"

definition is_Translated :: "call \<Rightarrow> bool" where
  "is_Translated c = (case c of Translated dst opts \<Rightarrow> True | Opened p \<Rightarrow> False)"

definition call_ok :: "call \<Rightarrow> bool" where
  "call_ok c = (case c of Translated dst opts \<Rightarrow> kmz_export_ok opts dst | Opened p \<Rightarrow> True)"

section \<open>Notions used in the statements\<close>







fun opened :: "call list \<Rightarrow> string list" where
  "opened [] = []"
| "opened (Opened p # cs) = p # opened cs"
| "opened (Translated dst opts # cs) = opened cs"

fun translated :: "call list \<Rightarrow> (string \<times> string list) list" where
  "translated [] = []"
| "translated (Opened p # cs) = translated cs"
| "translated (Translated dst opts # cs) = (dst, opts) # translated cs"

text \<open>The path of the product as the setup cell builds it, and the arguments of the
  command lines that name a netCDF subdataset.\<close>

definition product_path :: "world \<Rightarrow> string" where
  "product_path w =
     os_path_join
       (os_path_join (os_path_abspath (os_getcwd w) (os_path_join (os_getcwd w) [])) ''products'')
       product"

definition netcdf_arguments :: "string list" where
  "netcdf_arguments = filter (prefix_of ''NETCDF:'') (concat (shell_commands code_cells))"

section \<open>Sample sessions\<close>

text \<open>
  A raster of two by two pixels: an ordinary value, the no-data value 0, a value above the
  threshold and a NaN. The second band is one whose no-data query fails, the third one that
  cannot be read.
\<close>

definition sample_band :: band where
  "sample_band =
     \<lparr>ReadAsArray = Inr [Finite (1/2), Finite 0, Finite (2 * 10 ^ 20), NaN],
      GetNoDataValue = Inr (Some (Finite 0)),
      GetStatistics = Inr (0, 1/2, 1/4, 1/4)\<rparr>"



definition components_band :: band where
  "components_band =
     \<lparr>ReadAsArray = Inr [Finite 0, Finite 1, Finite 1, Finite 2],
      GetNoDataValue = Inr (Some (Finite (-1))),
      GetStatistics = Inr (0, 2, 1, 1/2)\<rparr>"

definition sample_dataset :: "band list \<Rightarrow> dataset" where
  "sample_dataset bs =
     \<lparr>GetGeoTransform = (-82, 1/2, 0, 42, 0, -1/4), RasterXSize = 2, RasterYSize = 2,
      bands = bs, GetProjectionRef = ''EPSG:4326''\<rparr>"

definition sample_world :: "string \<Rightarrow> band list \<Rightarrow> world" where
  "sample_world cwd bs =
     \<lparr>os_getcwd = cwd,
      gdal_Open = (\<lambda>p. if endswith p ''connectedComponents''
                         then Inr (sample_dataset [components_band])
                         else Inr (sample_dataset bs)),
      gdal_Info = (\<lambda>d. Inr ''Driver: netCDF/Network Common Data Format''),
      gdal_Translate = (\<lambda>dst src opts. Inr src),
      osr_ImportFromWkt = (\<lambda>wkt. Inr ()),
      plot_map = (\<lambda>m. Inr ())\<rparr>"

text \<open>What a run of the whole notebook leaves behind: the handles still held, and the paths
  that were handed to \<open>gdal.Open\<close>. \<open>None\<close> when a cell raises.\<close>

definition handles_after_run :: "world \<Rightarrow> string list option" where
  "handles_after_run w =
     (case run_GDAL_basics w of Inl e \<Rightarrow> None | Inr s \<Rightarrow> Some (open_handles s))"

definition paths_opened :: "world \<Rightarrow> string list option" where
  "paths_opened w =
     (case run_GDAL_basics w of Inl e \<Rightarrow> None | Inr s \<Rightarrow> Some (opened (calls s)))"

section \<open>Properties of \<open>plot_layer\<close>\<close>

subsection \<open>numpy masks\<close>






subsection \<open>The loops of plot_layer\<close>










subsection \<open>The shape of a run of plot_layer\<close>










text \<open>
  Laying out the grid is not the end of the function. The title list has one entry unless
  the layer type is \<open>ENU\<close>, and the loop over the axes reads \<open>title[i]\<close> for every axis: with
  two bands and another layer type the second axis is drawn and then the lookup of its
  title is out of range.
\<close>

lemma plot_layer_two_bands:
  "snd (plot_layer (sample_world ''/home/user'' [sample_band, sample_band])
          ''figures/pair.vrt'' (Some ''coherence'')) = Inl IndexError"
  by (simp add: plot_layer_def sample_world_def sample_dataset_def sample_band_def
      endswith_def startswith_def ext_def RasterCount_def mask_band_def Let_def
      plt_subplots_def layer_style_def py_index_def upt_rec)









section \<open>Properties of the GDAL basics session\<close>

lemma seq_Inr_left: "seq (Inr x) f = f x"
  by (simp add: seq_def)

lemma seq_assoc: "seq (seq r f) g = seq r (\<lambda>x. seq (f x) g)"
  by (cases r) (simp_all add: seq_def)


lemma seq_Inr: "seq r f = Inr y \<longleftrightarrow> (\<exists>x. r = Inr x \<and> f x = Inr y)"
  by (cases r) (simp_all add: seq_def)


lemma ext_Inr: "ext r = Inr x \<longleftrightarrow> r = Inr x"
  by (cases r) (auto simp: ext_def)

lemma lookup_Obj: "lookup n (Obj x) = Inr x"
  by (simp add: lookup_def)

lemma arg_dataset_Obj: "arg_dataset n (Obj x) = Inr x"
  by (simp add: arg_dataset_def)



lemmas cell_defs = cell_setup_def cell_open_product_def cell_info_def cell_open_unwPhase_def
  cell_stats_def cell_read_def cell_corners_def cell_mask_def cell_map_def cell_kmz_def
  cell_kmz_crop_def

lemmas run_simps = cell_defs seq_Inr_left seq_assoc fresh_def lookup_Obj arg_dataset_Obj Let_def

text \<open>After the last cell the two results of \<open>gdal.Translate\<close> are the handles still held.\<close>

lemma run_handles:
  "run_GDAL_basics w = Inr s \<Longrightarrow> open_handles s = [''kmzFile'', ''kmzFileCrop'']"
  unfolding run_GDAL_basics_def GDAL_basics_python_def
  apply (simp add: run_simps del: append.simps)
  apply (clarsimp simp: seq_Inr ext_Inr lookup_Obj open_handles_def is_Obj_def)
  done


lemma run_calls:
  "run_GDAL_basics w = Inr s \<Longrightarrow>
   calls s =
     [Opened (product_path w),
      Opened (''NETCDF:'' @ product_path w @ '':/science/grids/data/unwrappedPhase''),
      Opened (''NETCDF:'' @ product_path w @ '':/science/grids/data/unwrappedPhase''),
      Opened (''NETCDF:'' @ product_path w @ '':/science/grids/data/connectedComponents''),
      Opened (''NETCDF:'' @ product_path w @ '':/science/grids/data/unwrappedPhase''),
      Translated ''unwrappedPhase.kmz''
        (ParseCommandLine ''-of KMLSUPEROVERLAY -scale -co format=png''),
      Opened (''NETCDF:'' @ product_path w @ '':/science/grids/data/unwrappedPhase''),
      Translated ''unwrappedPhaseCrop.kmz''
        (ParseCommandLine
           ''-of KMLSUPEROVERLAY -scale -co format=png -projwin -81.00 42.30 -80.00 41.50'')]"
  unfolding run_GDAL_basics_def GDAL_basics_python_def
  apply (simp add: run_simps product_path_def [symmetric] del: append.simps)
  apply (clarsimp simp: seq_Inr ext_Inr lookup_Obj simp del: append.simps)
  done

text \<open>
  Claim C3. The notebook is run from top to bottom in the sample session. Every handle that
  came from \<open>gdal.Open\<close> has been set to \<open>None\<close> again, but \<open>kmzFile\<close> and \<open>kmzFileCrop\<close>, the
  datasets \<open>gdal.Translate\<close> returned, are still held when the last cell has run.
\<close>

theorem kmz_handles_stay_open:
  "handles_after_run (sample_world ''/home/user/GDAL_basics'' [sample_band]) =
     Some [''kmzFile'', ''kmzFileCrop'']"
  by code_simp

subsection \<open>The masking cell\<close>








section \<open>Properties of the cells as written\<close>

text \<open>The commands each cell hands to the shell.\<close>

lemma cell_commands_of_cells:
  \<open>cell_commands ariaPlot_cell1 =
     [] \<and>
   cell_commands ariaPlot_cell2 =
     [[''ariaDownload.py'', ''-t'', ''42'', ''-e'', ''20160101'', ''--bbox'',
      ''37.25 38.1 -122.6 -121.75'']] \<and>
   cell_commands ariaPlot_cell3 =
     [[''ls'', ''products'']] \<and>
   cell_commands ariaPlot_cell4 =
     [[''ariaPlot.py'', ''-h'']] \<and>
   cell_commands ariaPlot_cell5 =
     [[''ariaPlot.py'', ''-f'', ''products/*.nc'', ''--plotcoh'', ''--plotbperpcoh'',
      ''--makeavgoh'']] \<and>
   cell_commands ariaPlot_cell6 =
     [[''ls'', ''figures'']] \<and>
   cell_commands ariaPlot_cell7 =
     [] \<and>
   cell_commands ariaPlot_cell8 =
     [[''ariaPlot.py'', ''-f'', ''products/*.nc'', ''-plottracks'']] \<and>
   cell_commands GDAL_cell1 =
     [] \<and>
   cell_commands GDAL_cell2 =
     [[''ariaDownload.py'', ''--bbox'', ''41.5 42 -82 -78'', ''--ifg'',
      ''20190222_20190210'', ''-v'', ''-w'', ''{data_dir}'']] \<and>
   cell_commands GDAL_cell3 =
     [] \<and>
   cell_commands GDAL_cell4 =
     [] \<and>
   cell_commands GDAL_cell5 =
     [[''gdalinfo'',
      ''./products/S1-GUNW-A-R-077-tops-20190222_20190210-231605-42666N_40796N-PP-d75b-v2_0_1.nc'']] \<and>
   cell_commands GDAL_cell6 =
     [] \<and>
   cell_commands GDAL_cell7 =
     [] \<and>
   cell_commands GDAL_cell8 =
     [[''gdalinfo'',
      ''NETCDF:./products/S1-GUNW-A-R-077-tops-20190222_20190210-231605-42666N_40796N-PP-d75b-v2_0_1.nc:/science/grids/data/unwrappedPhase'']] \<and>
   cell_commands GDAL_cell9 =
     [[''gdalinfo'',
      ''NETCDF:./products/S1-GUNW-A-R-077-tops-20190222_20190210-231605-42666N_40796N-PP-d75b-v2_0_1.nc:/science/grids/data/unwrappedPhase'',
      ''-stats'']] \<and>
   cell_commands GDAL_cell10 =
     [[''gdalsrsinfo'', ''EPSG:4326'']] \<and>
   cell_commands GDAL_cell11 =
     [] \<and>
   cell_commands GDAL_cell12 =
     [] \<and>
   cell_commands GDAL_cell13 =
     [] \<and>
   cell_commands GDAL_cell14 =
     [] \<and>
   cell_commands GDAL_cell15 =
     [[''ls'', ''unwrappedPhase.kmz'']] \<and>
   cell_commands GDAL_cell16 =
     [[''ls'', ''unwrappedPhaseCrop.kmz'']] \<and>
   cell_commands GDAL_cell17 =
     [[''gdal_translate'', ''-of'', ''KMLSUPEROVERLAY'', ''-scale'', ''-co'',
      ''format=png'',
      ''NETCDF:./products/S1-GUNW-A-R-077-tops-20190222_20190210-231605-42666N_40796N-PP-d75b-v2_0_1.nc:/science/grids/data/unwrappedPhase'',
      ''unwrappedPhase.kmz''], [''ls'', ''unwrappedPhase.kmz'']] \<and>
   cell_commands GDAL_cell18 =
     [[''gdal_translate'', ''-of'', ''KMLSUPEROVERLAY'', ''-scale'', ''-co'',
      ''format=png'', ''-projwin'', ''-81.00'', ''42.30'', ''-80.00'', ''41.50'',
      ''NETCDF:./products/S1-GUNW-A-R-077-tops-20190222_20190210-231605-42666N_40796N-PP-d75b-v2_0_1.nc:/science/grids/data/unwrappedPhase'',
      ''unwrappedPhaseCrop.kmz''], [''ls'', ''unwrappedPhaseCrop.kmz'']] \<and>
   cell_commands ariaDownload_cell1 =
     [[''ariaDownload.py'']] \<and>
   cell_commands ariaDownload_cell2 =
     [[''ariaDownload.py'', ''--track'', ''4'', ''--output'', ''count'']] \<and>
   cell_commands ariaDownload_cell3 =
     [[''ariaDownload.py'', ''--track'', ''4'', ''--output'', ''url'']] \<and>
   cell_commands ariaDownload_cell4 =
     [[''head'', ''-n'', ''10'', ''products/download_products_4track_0.txt'']] \<and>
   cell_commands ariaDownload_cell5 =
     [[''ariaDownload.py'', ''--track'', ''4'', ''--output'', ''kmz'']] \<and>
   cell_commands ariaDownload_cell6 =
     [[''ariaDownload.py'', ''--track'', ''4'', ''--bbox'',
      ''36.75 37.225 -76.655 -75.928'', ''-o'', ''count'']] \<and>
   cell_commands ariaDownload_cell7 =
     [[''ariaDownload.py'', ''--track'', ''4'', ''--bbox'',
      ''./support_docs/HR_North.shp'', ''-o'', ''count'']] \<and>
   cell_commands ariaDownload_cell8 =
     [[''ariaDownload.py'', ''--track'', ''4'', ''--bbox'',
      ''36.75 37.225 -76.655 -75.928'', ''-o'', ''count'', ''--start'', ''20190101'']] \<and>
   cell_commands ariaDownload_cell9 =
     [[''ariaDownload.py'', ''--track'', ''4'', ''--bbox'',
      ''36.75 37.225 -76.655 -75.928'', ''-o'', ''count'', ''-s'', ''20190101'', ''--end'',
      ''20190401'', ''--verbose'']] \<and>
   cell_commands ariaDownload_cell10 =
     [[''ariaDownload.py'', ''--track'', ''4'', ''--bbox'',
      ''36.75 37.225 -76.655 -75.928'', ''-o'', ''count'', ''--daysless'', ''13'', ''-v'']] \<and>
   cell_commands ariaDownload_cell11 =
     [[''ariaDownload.py'', ''--track'', ''4'', ''--bbox'',
      ''36.75 37.225 -76.655 -75.928'', ''-o'', ''count'', ''--daysmore'', ''364'']] \<and>
   cell_commands ariaDownload_cell12 =
     [[''ariaDownload.py'', ''--track'', ''4'', ''--bbox'',
      ''36.75 37.225 -76.655 -75.928'', ''-o'', ''count'', ''-m'', ''59'', ''-l'', ''181'',
      ''-v'']] \<and>
   cell_commands ariaDownload_cell13 =
     [[''ariaDownload.py'', ''-b'', ''36.75 37.225 -76.655 -75.928'', ''-o'', ''count'',
      ''--ifg'', ''20161018_20160702'', ''-v'']]\<close>
  by code_simp

lemma shell_commands_code_cells:
  \<open>shell_commands code_cells =
     [[''ariaDownload.py'', ''-t'', ''42'', ''-e'', ''20160101'', ''--bbox'',
       ''37.25 38.1 -122.6 -121.75''],
      [''ls'', ''products''],
      [''ariaPlot.py'', ''-h''],
      [''ariaPlot.py'', ''-f'', ''products/*.nc'', ''--plotcoh'', ''--plotbperpcoh'',
       ''--makeavgoh''],
      [''ls'', ''figures''],
      [''ariaPlot.py'', ''-f'', ''products/*.nc'', ''-plottracks''],
      [''ariaDownload.py'', ''--bbox'', ''41.5 42 -82 -78'', ''--ifg'', ''20190222_20190210'',
       ''-v'', ''-w'', ''{data_dir}''],
      [''gdalinfo'',
       ''./products/S1-GUNW-A-R-077-tops-20190222_20190210-231605-42666N_40796N-PP-d75b-v2_0_1.nc''],
      [''gdalinfo'',
       ''NETCDF:./products/S1-GUNW-A-R-077-tops-20190222_20190210-231605-42666N_40796N-PP-d75b-v2_0_1.nc:/science/grids/data/unwrappedPhase''],
      [''gdalinfo'',
       ''NETCDF:./products/S1-GUNW-A-R-077-tops-20190222_20190210-231605-42666N_40796N-PP-d75b-v2_0_1.nc:/science/grids/data/unwrappedPhase'',
       ''-stats''],
      [''gdalsrsinfo'', ''EPSG:4326''],
      [''ls'', ''unwrappedPhase.kmz''],
      [''ls'', ''unwrappedPhaseCrop.kmz''],
      [''gdal_translate'', ''-of'', ''KMLSUPEROVERLAY'', ''-scale'', ''-co'', ''format=png'',
       ''NETCDF:./products/S1-GUNW-A-R-077-tops-20190222_20190210-231605-42666N_40796N-PP-d75b-v2_0_1.nc:/science/grids/data/unwrappedPhase'',
       ''unwrappedPhase.kmz''],
      [''ls'', ''unwrappedPhase.kmz''],
      [''gdal_translate'', ''-of'', ''KMLSUPEROVERLAY'', ''-scale'', ''-co'', ''format=png'',
       ''-projwin'', ''-81.00'', ''42.30'', ''-80.00'', ''41.50'',
       ''NETCDF:./products/S1-GUNW-A-R-077-tops-20190222_20190210-231605-42666N_40796N-PP-d75b-v2_0_1.nc:/science/grids/data/unwrappedPhase'',
       ''unwrappedPhaseCrop.kmz''],
      [''ls'', ''unwrappedPhaseCrop.kmz''],
      [''ariaDownload.py''],
      [''ariaDownload.py'', ''--track'', ''4'', ''--output'', ''count''],
      [''ariaDownload.py'', ''--track'', ''4'', ''--output'', ''url''],
      [''head'', ''-n'', ''10'', ''products/download_products_4track_0.txt''],
      [''ariaDownload.py'', ''--track'', ''4'', ''--output'', ''kmz''],
      [''ariaDownload.py'', ''--track'', ''4'', ''--bbox'', ''36.75 37.225 -76.655 -75.928'',
       ''-o'', ''count''],
      [''ariaDownload.py'', ''--track'', ''4'', ''--bbox'', ''./support_docs/HR_North.shp'',
       ''-o'', ''count''],
      [''ariaDownload.py'', ''--track'', ''4'', ''--bbox'', ''36.75 37.225 -76.655 -75.928'',
       ''-o'', ''count'', ''--start'', ''20190101''],
      [''ariaDownload.py'', ''--track'', ''4'', ''--bbox'', ''36.75 37.225 -76.655 -75.928'',
       ''-o'', ''count'', ''-s'', ''20190101'', ''--end'', ''20190401'', ''--verbose''],
      [''ariaDownload.py'', ''--track'', ''4'', ''--bbox'', ''36.75 37.225 -76.655 -75.928'',
       ''-o'', ''count'', ''--daysless'', ''13'', ''-v''],
      [''ariaDownload.py'', ''--track'', ''4'', ''--bbox'', ''36.75 37.225 -76.655 -75.928'',
       ''-o'', ''count'', ''--daysmore'', ''364''],
      [''ariaDownload.py'', ''--track'', ''4'', ''--bbox'', ''36.75 37.225 -76.655 -75.928'',
       ''-o'', ''count'', ''-m'', ''59'', ''-l'', ''181'', ''-v''],
      [''ariaDownload.py'', ''-b'', ''36.75 37.225 -76.655 -75.928'', ''-o'', ''count'',
       ''--ifg'', ''20161018_20160702'', ''-v'']]\<close>
  by (simp add: shell_commands_def code_cells_def ariaPlot_tutorial_def GDAL_basics_def
      ariaDownload_tutorial_def cell_commands_of_cells)

lemma ariaDownload_invocations_eq:
  \<open>ariaDownload_invocations =
     [[''ariaDownload.py'', ''-t'', ''42'', ''-e'', ''20160101'', ''--bbox'',
       ''37.25 38.1 -122.6 -121.75''],
      [''ariaDownload.py'', ''--bbox'', ''41.5 42 -82 -78'', ''--ifg'', ''20190222_20190210'',
       ''-v'', ''-w'', ''{data_dir}''],
      [''ariaDownload.py''],
      [''ariaDownload.py'', ''--track'', ''4'', ''--output'', ''count''],
      [''ariaDownload.py'', ''--track'', ''4'', ''--output'', ''url''],
      [''ariaDownload.py'', ''--track'', ''4'', ''--output'', ''kmz''],
      [''ariaDownload.py'', ''--track'', ''4'', ''--bbox'', ''36.75 37.225 -76.655 -75.928'',
       ''-o'', ''count''],
      [''ariaDownload.py'', ''--track'', ''4'', ''--bbox'', ''./support_docs/HR_North.shp'',
       ''-o'', ''count''],
      [''ariaDownload.py'', ''--track'', ''4'', ''--bbox'', ''36.75 37.225 -76.655 -75.928'',
       ''-o'', ''count'', ''--start'', ''20190101''],
      [''ariaDownload.py'', ''--track'', ''4'', ''--bbox'', ''36.75 37.225 -76.655 -75.928'',
       ''-o'', ''count'', ''-s'', ''20190101'', ''--end'', ''20190401'', ''--verbose''],
      [''ariaDownload.py'', ''--track'', ''4'', ''--bbox'', ''36.75 37.225 -76.655 -75.928'',
       ''-o'', ''count'', ''--daysless'', ''13'', ''-v''],
      [''ariaDownload.py'', ''--track'', ''4'', ''--bbox'', ''36.75 37.225 -76.655 -75.928'',
       ''-o'', ''count'', ''--daysmore'', ''364''],
      [''ariaDownload.py'', ''--track'', ''4'', ''--bbox'', ''36.75 37.225 -76.655 -75.928'',
       ''-o'', ''count'', ''-m'', ''59'', ''-l'', ''181'', ''-v''],
      [''ariaDownload.py'', ''-b'', ''36.75 37.225 -76.655 -75.928'', ''-o'', ''count'',
       ''--ifg'', ''20161018_20160702'', ''-v'']]\<close>
  unfolding ariaDownload_invocations_def shell_commands_code_cells by code_simp

lemma gdal_translate_commands_eq:
  \<open>gdal_translate_commands =
     [[''gdal_translate'', ''-of'', ''KMLSUPEROVERLAY'', ''-scale'', ''-co'', ''format=png'',
       ''NETCDF:./products/S1-GUNW-A-R-077-tops-20190222_20190210-231605-42666N_40796N-PP-d75b-v2_0_1.nc:/science/grids/data/unwrappedPhase'',
       ''unwrappedPhase.kmz''],
      [''gdal_translate'', ''-of'', ''KMLSUPEROVERLAY'', ''-scale'', ''-co'', ''format=png'',
       ''-projwin'', ''-81.00'', ''42.30'', ''-80.00'', ''41.50'',
       ''NETCDF:./products/S1-GUNW-A-R-077-tops-20190222_20190210-231605-42666N_40796N-PP-d75b-v2_0_1.nc:/science/grids/data/unwrappedPhase'',
       ''unwrappedPhaseCrop.kmz'']]\<close>
  unfolding gdal_translate_commands_def shell_commands_code_cells by code_simp





text \<open>
  Claim C4, as stated, fails at the ninth cell of the ariaDownload tutorial, which passes
  \<open>-s\<close> and \<open>--verbose\<close>.
\<close>

theorem ariaDownload_options_counterexample:
  \<open>[''ariaDownload.py'', ''--track'', ''4'', ''--bbox'', ''36.75 37.225 -76.655 -75.928'',
     ''-o'', ''count'', ''-s'', ''20190101'', ''--end'', ''20190401'', ''--verbose'']
     \<in> set ariaDownload_invocations \<and>
   \<not> invocation_ok documented_options
     [''ariaDownload.py'', ''--track'', ''4'', ''--bbox'', ''36.75 37.225 -76.655 -75.928'',
      ''-o'', ''count'', ''-s'', ''20190101'', ''--end'', ''20190401'', ''--verbose'']\<close>
proof -
  have \<open>\<not> invocation_ok documented_options
     [''ariaDownload.py'', ''--track'', ''4'', ''--bbox'', ''36.75 37.225 -76.655 -75.928'',
      ''-o'', ''count'', ''-s'', ''20190101'', ''--end'', ''20190401'', ''--verbose'']\<close>
    by code_simp
  then show ?thesis by (simp add: ariaDownload_invocations_eq)
qed

text \<open>
  Claim C4, amended. Each of the 14 invocations of \<open>ariaDownload.py\<close> uses only options of the
  documented signature or their other spellings \<open>-t\<close>, \<open>-b\<close>, \<open>-s\<close>, \<open>-e\<close>, \<open>-l\<close>, \<open>-m\<close> and
  \<open>--verbose\<close>, each option that takes a value is given one, and every value of \<open>-o\<close> or
  \<open>--output\<close> is one of download, count, kmz and url.
\<close>

theorem ariaDownload_options:
  "list_all (invocation_ok (documented_options @ short_options)) ariaDownload_invocations \<and>
   length ariaDownload_invocations = 14"
  unfolding ariaDownload_invocations_eq by code_simp

subsection \<open>KMZ exports\<close>

lemma kmz_python_exports:
  "kmz_export_ok (ParseCommandLine ''-of KMLSUPEROVERLAY -scale -co format=png'')
     ''unwrappedPhase.kmz'' \<and>
   kmz_export_ok
     (ParseCommandLine
        ''-of KMLSUPEROVERLAY -scale -co format=png -projwin -81.00 42.30 -80.00 41.50'')
     ''unwrappedPhaseCrop.kmz''"
  by code_simp

lemma sample_run:
  "(case run_GDAL_basics (sample_world ''/home/user/GDAL_basics'' [sample_band]) of
      Inl e \<Rightarrow> False | Inr s \<Rightarrow> True)"
  by code_simp

text \<open>
  Claim C5. The two \<open>gdal_translate\<close> command lines and the two calls of \<open>gdal.Translate\<close> that
  a run of the notebook makes all carry the options
  \<open>-of KMLSUPEROVERLAY -scale -co format=png\<close>, alone or followed by \<open>-projwin\<close> and four
  numbers, and write to a file whose name ends in \<open>.kmz\<close>.
\<close>

theorem kmz_exports:
  "list_all gdal_translate_ok gdal_translate_commands \<and> length gdal_translate_commands = 2 \<and>
   (\<forall>w s. run_GDAL_basics w = Inr s \<longrightarrow>
      map fst (translated (calls s)) = [''unwrappedPhase.kmz'', ''unwrappedPhaseCrop.kmz''] \<and>
      list_all call_ok (calls s))"
proof (intro conjI allI impI)
  show "list_all gdal_translate_ok gdal_translate_commands"
    unfolding gdal_translate_commands_eq by code_simp
  show "length gdal_translate_commands = 2"
    by (simp add: gdal_translate_commands_eq)
next
  fix w s assume "run_GDAL_basics w = Inr s"
  from run_calls [OF this]
  show "map fst (translated (calls s)) = [''unwrappedPhase.kmz'', ''unwrappedPhaseCrop.kmz'']"
    and "list_all call_ok (calls s)"
    using kmz_python_exports by (simp_all add: call_ok_def)
qed

theorem kmz_exports_witness:
  "\<exists>s. run_GDAL_basics (sample_world ''/home/user/GDAL_basics'' [sample_band]) = Inr s \<and>
       map fst (translated (calls s)) = [''unwrappedPhase.kmz'', ''unwrappedPhaseCrop.kmz''] \<and>
       list_all call_ok (calls s)"
proof -
  obtain s where "run_GDAL_basics (sample_world ''/home/user/GDAL_basics'' [sample_band]) = Inr s"
    using sample_run
    by (cases "run_GDAL_basics (sample_world ''/home/user/GDAL_basics'' [sample_band])") auto
  then show ?thesis using kmz_exports by blast
qed

subsection \<open>Paths\<close>

lemma basename_no_slash: "CHR ''/'' \<notin> set b \<Longrightarrow> basename b = b"
proof -
  assume "CHR ''/'' \<notin> set b"
  then have "\<forall>x\<in>set (rev b). x \<noteq> CHR ''/''" by auto
  then have "takeWhile (\<lambda>c. c \<noteq> CHR ''/'') (rev b) = rev b"
    by (simp add: takeWhile_eq_all_conv)
  then show ?thesis by (simp only: basename_def rev_rev_ident)
qed

lemma basename_after_slash: "CHR ''/'' \<notin> set b \<Longrightarrow> basename (a @ ''/'' @ b) = b"
proof -
  assume "CHR ''/'' \<notin> set b"
  then have nb: "x \<noteq> CHR ''/''" if "x \<in> set (rev b)" for x
    using that by auto
  have "takeWhile (\<lambda>c. c \<noteq> CHR ''/'') (rev b @ CHR ''/'' # rev a) =
        rev b @ takeWhile (\<lambda>c. c \<noteq> CHR ''/'') (CHR ''/'' # rev a)"
    by (rule takeWhile_append2) (rule nb)
  then have "takeWhile (\<lambda>c. c \<noteq> CHR ''/'') (rev b @ CHR ''/'' # rev a) = rev b"
    by simp
  moreover have "rev (a @ ''/'' @ b) = rev b @ CHR ''/'' # rev a" by simp
  ultimately show ?thesis by (simp only: basename_def rev_rev_ident)
qed

lemma endswith_slash: "endswith a ''/'' \<Longrightarrow> \<exists>a'. a = a' @ ''/''"
proof -
  assume "endswith a ''/''"
  then have "drop (length a - 1) a = ''/''" by (simp add: endswith_def)
  then have "a = take (length a - 1) a @ ''/''"
    by (metis append_take_drop_id)
  then show ?thesis by blast
qed

lemma basename_join: "CHR ''/'' \<notin> set b \<Longrightarrow> basename (os_path_join a b) = b"
proof -
  assume b: "CHR ''/'' \<notin> set b"
  have ns: "\<not> startswith b ''/''"
    using b by (cases b) (auto simp: startswith_def)
  show ?thesis
  proof (cases "a = [] \<or> endswith a ''/''")
    case True
    then consider "a = []" | a' where "a = a' @ ''/''"
      using endswith_slash by blast
    then have "basename (a @ b) = b"
    proof cases
      case 1
      then show ?thesis using b by (simp add: basename_no_slash)
    next
      case 2
      then show ?thesis using basename_after_slash [OF b, of a'] by simp
    qed
    then show ?thesis using True ns by (simp add: os_path_join_def)
  next
    case False
    then show ?thesis
      using ns basename_after_slash [OF b, of a] by (simp add: os_path_join_def)
  qed
qed

lemma product_no_slash: "CHR ''/'' \<notin> set product"
  by code_simp

lemma product_path_dir: "\<exists>dir. product_path w = dir @ product"
proof -
  have "\<not> startswith product ''/''" by code_simp
  then show ?thesis
    by (auto simp: product_path_def os_path_join_def [of _ product])
qed

lemma netcdf_arguments_eq:
  "netcdf_arguments =
     replicate 4 (''NETCDF:./products/'' @ product @ '':/science/grids/data/unwrappedPhase'')"
  unfolding netcdf_arguments_def shell_commands_code_cells by code_simp

text \<open>
  Claim C6, as stated, fails for the paths the Python cells hand to \<open>gdal.Open\<close>: they are
  not the three fixed strings put together, but contain the directory of the session, and
  change with it.
\<close>

theorem subdataset_path_counterexample:
  "paths_opened (sample_world ''/home/user/GDAL_basics'' [sample_band]) =
     Some [''/home/user/GDAL_basics/products/'' @ product,
           ''NETCDF:/home/user/GDAL_basics/products/'' @ product @ '':/science/grids/data/unwrappedPhase'',
           ''NETCDF:/home/user/GDAL_basics/products/'' @ product @ '':/science/grids/data/unwrappedPhase'',
           ''NETCDF:/home/user/GDAL_basics/products/'' @ product @ '':/science/grids/data/connectedComponents'',
           ''NETCDF:/home/user/GDAL_basics/products/'' @ product @ '':/science/grids/data/unwrappedPhase'',
           ''NETCDF:/home/user/GDAL_basics/products/'' @ product @ '':/science/grids/data/unwrappedPhase''] \<and>
   ''NETCDF:/home/user/GDAL_basics/products/'' @ product @ '':/science/grids/data/unwrappedPhase''
     \<noteq> ''NETCDF:'' @ product @ '':/science/grids/data/unwrappedPhase'' \<and>
   paths_opened (sample_world ''/tmp'' [sample_band]) =
     Some [''/tmp/products/'' @ product,
           ''NETCDF:/tmp/products/'' @ product @ '':/science/grids/data/unwrappedPhase'',
           ''NETCDF:/tmp/products/'' @ product @ '':/science/grids/data/unwrappedPhase'',
           ''NETCDF:/tmp/products/'' @ product @ '':/science/grids/data/connectedComponents'',
           ''NETCDF:/tmp/products/'' @ product @ '':/science/grids/data/unwrappedPhase'',
           ''NETCDF:/tmp/products/'' @ product @ '':/science/grids/data/unwrappedPhase'']"
  by code_simp

text \<open>
  Claim C6, amended. The product's file name and the subdataset paths are fixed strings.
  The path of the product is \<open>os.path.join\<close> of the session's data directory and the fixed
  file name, so that its last component is that name; what \<open>gdal.Open\<close> receives is that
  path, or \<open>NETCDF:\<close>, that path and a fixed subdataset path put together. On the command lines
  the whole argument is the fixed string
  \<open>NETCDF:./products/<product>:/science/grids/data/unwrappedPhase\<close>.
\<close>

theorem subdataset_paths:
  "(\<forall>w s. run_GDAL_basics w = Inr s \<longrightarrow>
      opened (calls s) =
        [product_path w,
         ''NETCDF:'' @ product_path w @ '':/science/grids/data/unwrappedPhase'',
         ''NETCDF:'' @ product_path w @ '':/science/grids/data/unwrappedPhase'',
         ''NETCDF:'' @ product_path w @ '':/science/grids/data/connectedComponents'',
         ''NETCDF:'' @ product_path w @ '':/science/grids/data/unwrappedPhase'',
         ''NETCDF:'' @ product_path w @ '':/science/grids/data/unwrappedPhase'']) \<and>
   (\<forall>w. basename (product_path w) = product \<and> (\<exists>dir. product_path w = dir @ product)) \<and>
   netcdf_arguments =
     replicate 4 (''NETCDF:./products/'' @ product @ '':/science/grids/data/unwrappedPhase'')"
proof (intro conjI allI impI)
  fix w s assume "run_GDAL_basics w = Inr s"
  from run_calls [OF this]
  show "opened (calls s) =
        [product_path w,
         ''NETCDF:'' @ product_path w @ '':/science/grids/data/unwrappedPhase'',
         ''NETCDF:'' @ product_path w @ '':/science/grids/data/unwrappedPhase'',
         ''NETCDF:'' @ product_path w @ '':/science/grids/data/connectedComponents'',
         ''NETCDF:'' @ product_path w @ '':/science/grids/data/unwrappedPhase'',
         ''NETCDF:'' @ product_path w @ '':/science/grids/data/unwrappedPhase'']"
    by simp
next
  fix w show "basename (product_path w) = product"
    unfolding product_path_def by (rule basename_join) (rule product_no_slash)
  show "\<exists>dir. product_path w = dir @ product" by (rule product_path_dir)
next
  show "netcdf_arguments =
     replicate 4 (''NETCDF:./products/'' @ product @ '':/science/grids/data/unwrappedPhase'')"
    by (rule netcdf_arguments_eq)
qed

theorem subdataset_paths_witness:
  "\<exists>s. run_GDAL_basics (sample_world ''/tmp'' [sample_band]) = Inr s \<and>
       opened (calls s) =
         [product_path (sample_world ''/tmp'' [sample_band]),
          ''NETCDF:'' @ product_path (sample_world ''/tmp'' [sample_band])
             @ '':/science/grids/data/unwrappedPhase'',
          ''NETCDF:'' @ product_path (sample_world ''/tmp'' [sample_band])
             @ '':/science/grids/data/unwrappedPhase'',
          ''NETCDF:'' @ product_path (sample_world ''/tmp'' [sample_band])
             @ '':/science/grids/data/connectedComponents'',
          ''NETCDF:'' @ product_path (sample_world ''/tmp'' [sample_band])
             @ '':/science/grids/data/unwrappedPhase'',
          ''NETCDF:'' @ product_path (sample_world ''/tmp'' [sample_band])
             @ '':/science/grids/data/unwrappedPhase''] \<and>
       product_path (sample_world ''/tmp'' [sample_band]) = ''/tmp/products/'' @ product"
proof -
  have "(case run_GDAL_basics (sample_world ''/tmp'' [sample_band]) of
           Inl e \<Rightarrow> False | Inr s \<Rightarrow> True)"
    by code_simp
  then obtain s where "run_GDAL_basics (sample_world ''/tmp'' [sample_band]) = Inr s"
    by (cases "run_GDAL_basics (sample_world ''/tmp'' [sample_band])") auto
  moreover have "product_path (sample_world ''/tmp'' [sample_band]) = ''/tmp/products/'' @ product"
    by code_simp
  ultimately show ?thesis using subdataset_paths by blast
qed

section \<open>Error handling\<close>




end
